theory Spec2Isabelle
  imports Main "HOL-Library.Sublist" "HOL-Library.Code_Target_Numeral"
begin

section \<open>GraphJin request authentication (package auth) and the remote resolver\<close>

text \<open>
  A shallow embedding of \<^verbatim>\<open>serv/auth/auth.go\<close> (\<^verbatim>\<open>NewAuthHandlerFunc\<close>,
  \<^verbatim>\<open>NewAuth\<close>, \<^verbatim>\<open>SimpleHandler\<close>, \<^verbatim>\<open>HeaderHandler\<close>, \<^verbatim>\<open>IsAuth\<close>,
  \<^verbatim>\<open>UserID\<close>, \<^verbatim>\<open>UserIDInt\<close>) and of \<^verbatim>\<open>core/remote_api.go\<close>
  (\<^verbatim>\<open>remoteAPI.Resolve\<close>).

  Go values are modelled as follows.
  \<^item> A Go \<^verbatim>\<open>string\<close> is a byte sequence: \<^typ>\<open>string\<close>.
  \<^item> A value of interface type that may be \<^verbatim>\<open>nil\<close> is an \<^typ>\<open>'a option\<close>,
    \<^term>\<open>None\<close> being \<^verbatim>\<open>nil\<close>.
  \<^item> A run-time panic is a value: a function that can panic returns \<open>panic + 'a\<close>.
  \<^item> A constructor returning \<^verbatim>\<open>(x, error)\<close> returns \<open>error + 'a\<close>.
  \<^item> The effects of a request handler (calling the strategy, logging, writing the error
    response, calling the downstream handler) are recorded, in order, as a list of events.
\<close>

subsection \<open>Errors\<close>

text \<open>
  The package has two sentinel errors, \<^verbatim>\<open>Err401\<close> and \<^verbatim>\<open>ErrNoAuthDefined\<close>, both
  made by \<^verbatim>\<open>errors.New\<close> and compared by identity. Every other error (one made by
  \<^verbatim>\<open>fmt.Errorf\<close>, or one returned by a library) is an \<open>Errorf\<close> with its message; such
  an error is never identical to a sentinel, whatever its message.
\<close>

datatype error = Err401 | ErrNoAuthDefined | Errorf string

fun Error :: "error \<Rightarrow> string" where
  "Error Err401 = ''401 unauthorized''"
| "Error ErrNoAuthDefined = ''no auth defined''"
| "Error (Errorf msg) = msg"

datatype panic = NilPointerDereference

subsection \<open>Contexts\<close>

text \<open>
  Modelled from the spec: the context keys \<^verbatim>\<open>core.UserIDProviderKey\<close>,
  \<^verbatim>\<open>core.UserIDKey\<close> and \<^verbatim>\<open>core.UserRoleKey\<close> are declared in package
  \<^verbatim>\<open>core\<close>, not in \<^verbatim>\<open>auth.go\<close>. The spec lists UserID, UserIDProvider and
  UserRole as three separate attributes of the identity, so they are three distinct keys;
  \<open>OtherKey\<close> stands for the keys of everybody else.
\<close>

datatype contextkey = UserIDProviderKey | UserIDKey | UserRoleKey | OtherKey string

text \<open>A non-nil value of type \<^verbatim>\<open>interface{}\<close>, with its dynamic type.\<close>

datatype iface = StringVal string | IntVal int | BoolVal bool

text \<open>
  A non-nil \<^verbatim>\<open>context.Context\<close> is the chain of its \<^verbatim>\<open>WithValue\<close> frames, the
  innermost first. \<^verbatim>\<open>c.Value(key)\<close> returns the value of the first frame with that
  key, and \<^verbatim>\<open>nil\<close> when there is none; a frame may itself hold \<^verbatim>\<open>nil\<close>.
\<close>

type_synonym Context = "(contextkey \<times> iface option) list"

definition WithValue :: "Context \<Rightarrow> contextkey \<Rightarrow> iface option \<Rightarrow> Context" where
  "WithValue c key val = (key, val) # c"

fun ctx_Value :: "Context \<Rightarrow> contextkey \<Rightarrow> iface option" where
  "ctx_Value [] key = None"
| "ctx_Value ((k, v) # c) key = (if k = key then v else ctx_Value c key)"

subsection \<open>Requests, strategies and configuration\<close>

text \<open>
  Of an \<^verbatim>\<open>*http.Request\<close> the package reads \<^verbatim>\<open>r.Header.Get(name)\<close> (the first
  value of the named header, the empty string when there is none), \<^verbatim>\<open>r.Context()\<close>
  (never nil) and \<^verbatim>\<open>websocket.IsWebSocketUpgrade(r)\<close>. \<^verbatim>\<open>r.WithContext(c)\<close> is the
  record update of the field \<open>Context\<close>.
\<close>

record Request =
  Header_Get :: "string \<Rightarrow> string"
  Context :: Context
  IsWebSocketUpgrade :: bool

text \<open>
  \<^verbatim>\<open>type HandlerFunc func(w, r) (context.Context, error)\<close>: a strategy returns a
  context that may be nil and an error that may be nil. A strategy is taken to be a
  function of the request that returns.
\<close>

type_synonym HandlerFunc = "Request \<Rightarrow> Context option \<times> error option"

record AuthHeader =
  Header_Name :: string
  Header_Value :: string
  Header_Exists :: bool

record AuthRails =
  Rails_Version :: string
  Rails_SecretKeyBase :: string
  Rails_URL :: string
  Rails_Password :: string
  Rails_MaxIdle :: int
  Rails_MaxActive :: int
  Rails_Salt :: string
  Rails_SignSalt :: string
  Rails_AuthSalt :: string

text \<open>
  \<^verbatim>\<open>type Auth struct\<close>. The type of the field \<open>JWT\<close>, \<^verbatim>\<open>provider.JWTConfig\<close>, is
  declared in another package; it is the type parameter \<open>'jwt\<close>.
\<close>

record 'jwt Auth =
  Development :: bool
  Name :: string
  Type :: string
  Cookie :: string
  Rails :: AuthRails
  JWT :: 'jwt
  Header :: AuthHeader

record Options =
  AuthFailBlock :: bool

datatype Logger = ZapLogger

subsection \<open>The strategies\<close>

text \<open>\<^verbatim>\<open>SimpleHandler\<close>: the closure it returns, then the constructor.\<close>

definition SimpleHandler_func :: HandlerFunc where
  "SimpleHandler_func r =
     (let c = Context r;
          userIDProvider = Header_Get r ''X-User-ID-Provider'';
          c = (if userIDProvider \<noteq> ''''
               then WithValue c UserIDProviderKey (Some (StringVal userIDProvider)) else c);
          userID = Header_Get r ''X-User-ID'';
          c = (if userID \<noteq> '''' then WithValue c UserIDKey (Some (StringVal userID)) else c);
          userRole = Header_Get r ''X-User-Role'';
          c = (if userRole \<noteq> '''' then WithValue c UserRoleKey (Some (StringVal userRole)) else c)
      in (Some c, None))"

definition SimpleHandler :: "'jwt Auth \<Rightarrow> error + HandlerFunc" where
  "SimpleHandler ac = Inr SimpleHandler_func"

text \<open>\<^verbatim>\<open>HeaderHandler\<close>: the closure over \<^verbatim>\<open>hdr\<close>, then the constructor with its two checks.\<close>

definition HeaderHandler_func :: "AuthHeader \<Rightarrow> HandlerFunc" where
  "HeaderHandler_func hdr r =
     (let v = Header_Get r (Header_Name hdr);
          fo1 = (if Header_Exists hdr then v = '''' else v \<noteq> Header_Value hdr)
      in if fo1 then (None, Some Err401) else (None, None))"

definition HeaderHandler :: "'jwt Auth \<Rightarrow> error + HandlerFunc" where
  "HeaderHandler ac =
     (let hdr = Header ac in
      if Header_Name hdr = ''''
      then Inl (Errorf (''auth '' @ [CHR 0x27] @ Name ac @ [CHR 0x27] @ '': no header.name defined''))
      else if \<not> Header_Exists hdr \<and> Header_Value hdr = ''''
      then Inl (Errorf (''auth '' @ [CHR 0x27] @ Name ac @ [CHR 0x27] @ '': no header.value defined''))
      else Inr (HeaderHandler_func hdr))"

subsection \<open>The strategy selector\<close>

text \<open>
  \<^verbatim>\<open>NewAuthHandlerFunc\<close>. \<^verbatim>\<open>RailsHandler\<close> and \<^verbatim>\<open>JwtHandler\<close> are defined in other
  files of the package, so they are parameters here; a constructor returns an error or,
  with a nil error, a strategy.
\<close>

definition wrap_err :: "'jwt Auth \<Rightarrow> error + HandlerFunc \<Rightarrow> error + HandlerFunc" where
  \<comment> \<open>the test \<^verbatim>\<open>if err != nil\<close> that follows the inner switch\<close>
  "wrap_err ac res =
     (case res of
        Inl err \<Rightarrow> Inl (Errorf (Type ac @ '': '' @ Error err))
      | Inr h \<Rightarrow> Inr h)"

definition NewAuthHandlerFunc ::
  "('jwt Auth \<Rightarrow> error + HandlerFunc) \<Rightarrow> ('jwt Auth \<Rightarrow> error + HandlerFunc) \<Rightarrow>
   'jwt Auth \<Rightarrow> error + HandlerFunc" where
  "NewAuthHandlerFunc RailsHandler JwtHandler ac =
     (if Development ac then SimpleHandler ac
      else if Type ac = ''rails'' then wrap_err ac (RailsHandler ac)
      else if Type ac = ''jwt'' then wrap_err ac (JwtHandler ac)
      else if Type ac = ''header'' then wrap_err ac (HeaderHandler ac)
      else if Type ac = '''' \<or> Type ac = ''none'' then Inl ErrNoAuthDefined
      else Inl (Errorf (''auth: unknown auth type: '' @ Type ac)))"

subsection \<open>Identity accessors\<close>

text \<open>
  \<^verbatim>\<open>UserID\<close> and \<^verbatim>\<open>IsAuth\<close> call the method \<^verbatim>\<open>Value\<close> of their argument; on a nil
  \<^verbatim>\<open>context.Context\<close> that call panics.
\<close>

definition UserID :: "Context option \<Rightarrow> panic + iface option" where
  "UserID c = (case c of None \<Rightarrow> Inl NilPointerDereference
               | Some c' \<Rightarrow> Inr (ctx_Value c' UserIDKey))"

definition IsAuth :: "Context option \<Rightarrow> panic + bool" where
  "IsAuth c = (case c of None \<Rightarrow> Inl NilPointerDereference
               | Some c' \<Rightarrow> Inr (ctx_Value c' UserIDKey \<noteq> None))"

text \<open>
  \<^verbatim>\<open>strconv.Atoi\<close> of the Go library, as \<^verbatim>\<open>ParseInt(s, 10, 0)\<close> computes it (the
  fast path of \<^verbatim>\<open>Atoi\<close> for short strings gives the same results): an optional sign,
  then \<^verbatim>\<open>ParseUint\<close> on the rest, which fails with a syntax error on the empty string
  and on the first byte that is not a decimal digit, and with a range error as soon as
  the number read exceeds \<open>2 ^ intSize - 1\<close>; then the check against the range of
  \<^verbatim>\<open>int\<close>. \<open>intSize\<close> is the width of \<^verbatim>\<open>int\<close>, 64 bits on the usual targets.
\<close>

datatype NumError = ErrSyntax | ErrRange

definition intSize :: nat where
  "intSize = 64"

definition isDigit :: "char \<Rightarrow> bool" where
  "isDigit c = (48 \<le> (of_char c :: nat) \<and> (of_char c :: nat) \<le> 57)"

definition digitVal :: "char \<Rightarrow> nat" where
  "digitVal c = of_char c - 48"

fun ParseUint_loop :: "nat \<Rightarrow> string \<Rightarrow> NumError + nat" where
  "ParseUint_loop n [] = Inr n"
| "ParseUint_loop n (c # s) =
     (if \<not> isDigit c then Inl ErrSyntax
      else if n * 10 + digitVal c > 2 ^ intSize - 1 then Inl ErrRange
      else ParseUint_loop (n * 10 + digitVal c) s)"

definition ParseUint :: "string \<Rightarrow> NumError + nat" where
  "ParseUint s = (if s = [] then Inl ErrSyntax else ParseUint_loop 0 s)"

definition ParseInt :: "string \<Rightarrow> NumError + int" where
  "ParseInt s0 =
     (case s0 of
        [] \<Rightarrow> Inl ErrSyntax
      | c # rest \<Rightarrow>
          let neg = (c = CHR ''-'');
              s = (if c = CHR ''+'' \<or> c = CHR ''-'' then rest else s0)
          in (case ParseUint s of
                Inl e \<Rightarrow> Inl e
              | Inr un \<Rightarrow>
                  let cutoff = 2 ^ (intSize - 1) in
                  if \<not> neg \<and> un \<ge> cutoff then Inl ErrRange
                  else if neg \<and> un > cutoff then Inl ErrRange
                  else Inr (if neg then - int un else int un)))"

definition Atoi :: "string \<Rightarrow> NumError + int" where
  "Atoi s = ParseInt s"

text \<open>
  \<^verbatim>\<open>UserIDInt\<close>: the type assertion \<^verbatim>\<open>UserID(c).(string)\<close> fails on nil and on a
  value of another type; any error of \<^verbatim>\<open>Atoi\<close> gives \<open>- 1\<close>.
\<close>

definition UserIDInt :: "Context option \<Rightarrow> panic + int" where
  "UserIDInt c =
     (case UserID c of
        Inl p \<Rightarrow> Inl p
      | Inr (Some (StringVal v)) \<Rightarrow>
          (case Atoi v of Inr n \<Rightarrow> Inr n | Inl err \<Rightarrow> Inr (- 1))
      | Inr _ \<Rightarrow> Inr (- 1))"

subsection \<open>The middleware\<close>

text \<open>
  What a decorated handler does to the world, in order: it calls the strategy, logs an
  error (message, the field \<^verbatim>\<open>type\<close>, the error), calls
  \<^verbatim>\<open>http.Error(w, msg, code)\<close>, calls \<^verbatim>\<open>next.ServeHTTP\<close> with a request. It then
  returns, or it has panicked on the way.
\<close>

datatype event =
    StrategyCalled Request
  | LogError string string error
  | HttpError string nat
  | NextServeHTTP Request

datatype status = Returned | Panicked

fun is_LogError :: "event \<Rightarrow> bool" where
  "is_LogError (LogError msg type err) = True"
| "is_LogError e = False"

type_synonym Handler = "Request \<Rightarrow> event list \<times> status"

definition StatusUnauthorized :: nat where
  "StatusUnauthorized = 401"

text \<open>Lines 271 to 290 of \<^verbatim>\<open>NewAuth\<close>: the path of a request that is not bypassed.\<close>

definition authenticate ::
  "HandlerFunc \<Rightarrow> 'jwt Auth \<Rightarrow> Logger option \<Rightarrow> Options \<Rightarrow> Handler" where
  "authenticate h ac log opt r =
     (case h r of (c, err) \<Rightarrow>
        let called = [StrategyCalled r];
            logged = (case err of
                        Some e \<Rightarrow> if log \<noteq> None then [LogError ''Auth'' (Type ac) e] else []
                      | None \<Rightarrow> []);
            reject = (called @ logged @ [HttpError ''401 unauthorized'' StatusUnauthorized], Returned);
            forward = (case c of
                         Some c' \<Rightarrow> (called @ logged @ [NextServeHTTP (r\<lparr>Context := c'\<rparr>)], Returned)
                       | None \<Rightarrow> (called @ logged @ [NextServeHTTP r], Returned))
        in if err = Some Err401 then reject
           else if AuthFailBlock opt then
             (case IsAuth c of
                Inl p \<Rightarrow> (called @ logged, Panicked)
              | Inr a \<Rightarrow> if \<not> a then reject else forward)
           else forward)"

text \<open>The handler \<^verbatim>\<open>ah\<close> that the middleware returns for \<^verbatim>\<open>next\<close>.\<close>

definition ah ::
  "bool \<Rightarrow> HandlerFunc \<Rightarrow> 'jwt Auth \<Rightarrow> Logger option \<Rightarrow> Options \<Rightarrow> Handler" where
  "ah wsAuthSupported h ac log opt r =
     (if wsAuthSupported \<and> IsWebSocketUpgrade r then ([NextServeHTTP r], Returned)
      else authenticate h ac log opt r)"

text \<open>
  \<^verbatim>\<open>NewAuth\<close>. The variadic \<^verbatim>\<open>hFn\<close> is a list of strategies, each of which may be
  nil. The result is the error, or the middleware, given here by the handler it makes
  of \<^verbatim>\<open>next\<close> (whose calls are the \<open>NextServeHTTP\<close> events).
\<close>

definition NewAuth ::
  "('jwt Auth \<Rightarrow> error + HandlerFunc) \<Rightarrow> ('jwt Auth \<Rightarrow> error + HandlerFunc) \<Rightarrow>
   'jwt Auth \<Rightarrow> Logger option \<Rightarrow> Options \<Rightarrow> HandlerFunc option list \<Rightarrow> error + Handler" where
  "NewAuth RailsHandler JwtHandler ac log opt hFn =
     (case hFn of
        Some h0 # _ \<Rightarrow> Inr (ah True h0 ac log opt)
      | _ \<Rightarrow> (case NewAuthHandlerFunc RailsHandler JwtHandler ac of
                Inl err \<Rightarrow> Inl err
              | Inr h \<Rightarrow> Inr (ah False h ac log opt)))"

subsection \<open>The remote resolver\<close>

text \<open>
  \<^verbatim>\<open>strings.ReplaceAll(s, old, new)\<close> for a non-empty \<open>old\<close>: the occurrences of
  \<open>old\<close> are replaced from left to right, without overlap. The code calls it with the
  literal \<^verbatim>\<open>"$id"\<close> only; what Go does for the empty pattern (it inserts \<open>new\<close> around
  every character) is not part of this model, which leaves the string as it is.
\<close>

fun ReplaceAll :: "string \<Rightarrow> string \<Rightarrow> string \<Rightarrow> string" where
  "ReplaceAll [] old new = []"
| "ReplaceAll (c # s) old new =
     (if old \<noteq> [] \<and> take (length old) (c # s) = old
      then new @ ReplaceAll (drop (length old - 1) s) old new
      else c # ReplaceAll s old new)"

text \<open>The verb \<^verbatim>\<open>%d\<close> of \<^verbatim>\<open>fmt\<close>: an integer in decimal.\<close>

fun FormatNat :: "nat \<Rightarrow> string" where
  "FormatNat n =
     (if n < 10 then [char_of (48 + n)]
      else FormatNat (n div 10) @ [char_of (48 + n mod 10)])"

declare FormatNat.simps [simp del]

definition FormatInt :: "int \<Rightarrow> string" where
  "FormatInt i = (if i < 0 then CHR ''-'' # FormatNat (nat (- i)) else FormatNat (nat i))"

record remoteHdrs =
  hdr_Name :: string
  hdr_Value :: string

record remoteAPI =
  URL :: string
  Debug :: bool
  PassHeaders :: "string list"
  SetHeaders :: "remoteHdrs list"

text \<open>
  Of a \<^verbatim>\<open>ResolverReq\<close> (declared elsewhere in package \<^verbatim>\<open>core\<close>) the function reads
  the field \<^verbatim>\<open>ID\<close>, and it prints to the field \<^verbatim>\<open>Log\<close>.
\<close>

record ResolverReq =
  ID :: string

text \<open>
  The outgoing request: its method, its URL and the calls of \<^verbatim>\<open>req.Header.Set\<close>, in
  order. The response: its status code and what \<^verbatim>\<open>io.ReadAll(res.Body)\<close> returns.
\<close>

record HttpRequest =
  Method :: string
  Req_URL :: string
  Header_Set :: "(string \<times> string) list"

record Response =
  StatusCode :: int
  Body :: "error + string"

text \<open>
  What lies outside the function: \<^verbatim>\<open>http.NewRequestWithContext\<close> (which fails on a
  URL it cannot parse), the round trip \<^verbatim>\<open>client.Do\<close>, the two dump functions of
  \<^verbatim>\<open>httputil\<close>, and \<^verbatim>\<open>jsn.ValidateBytes\<close> of the package \<^verbatim>\<open>internal/jsn\<close>, the
  JSON validator of the repository, defined in another package.
\<close>

record Net =
  NewRequestWithContext :: "string \<Rightarrow> string \<Rightarrow> error option"
  client_Do :: "HttpRequest \<Rightarrow> error + Response"
  DumpRequestOut :: "HttpRequest \<Rightarrow> error + string"
  DumpResponse :: "Response \<Rightarrow> error + string"
  ValidateBytes :: "string \<Rightarrow> error option"

datatype io_event =
    ClientDo HttpRequest
  | LogPrintf string string string
  | BodyClose

text \<open>Lines 81 to 94: the dumps of the debug mode.\<close>

definition debug_dump :: "Net \<Rightarrow> HttpRequest \<Rightarrow> Response \<Rightarrow> error + io_event list" where
  "debug_dump net req res =
     (case DumpRequestOut net req of
        Inl err \<Rightarrow> Inl err
      | Inr reqDump \<Rightarrow>
          (case DumpResponse net res of
             Inl err \<Rightarrow> Inl err
           | Inr resDump \<Rightarrow>
               Inr [LogPrintf ''DBG Remote Request:\<newline>%s\<newline>%s'' reqDump resDump]))"

text \<open>Lines 96 to 110: the status, the body, its validation.\<close>

definition read_body :: "Net \<Rightarrow> Response \<Rightarrow> error + string" where
  "read_body net res =
     (if StatusCode res \<noteq> 200
      then Inl (Errorf (''server responded with a '' @ FormatInt (StatusCode res)))
      else case Body res of
             Inl err \<Rightarrow> Inl err
           | Inr b \<Rightarrow> (case ValidateBytes net b of Some err \<Rightarrow> Inl err | None \<Rightarrow> Inr b))"

text \<open>The request that \<^verbatim>\<open>Resolve\<close> builds.\<close>

definition Resolve_uri :: "remoteAPI \<Rightarrow> ResolverReq \<Rightarrow> string" where
  "Resolve_uri r rr = ReplaceAll (URL r) ''$id'' (ID rr)"

definition Resolve_req :: "remoteAPI \<Rightarrow> ResolverReq \<Rightarrow> HttpRequest" where
  "Resolve_req r rr =
     \<lparr>Method = ''GET'', Req_URL = Resolve_uri r rr,
      Header_Set = map (\<lambda>v. (hdr_Name v, hdr_Value v)) (SetHeaders r)\<rparr>"

text \<open>
  \<^verbatim>\<open>remoteAPI.Resolve\<close>: the events, in order, and the result. The deferred
  \<^verbatim>\<open>res.Body.Close()\<close> runs on every return that follows a successful \<^verbatim>\<open>client.Do\<close>.
\<close>

definition Resolve :: "Net \<Rightarrow> remoteAPI \<Rightarrow> ResolverReq \<Rightarrow> io_event list \<times> (error + string)" where
  "Resolve net r rr =
     (let uri = Resolve_uri r rr in
      case NewRequestWithContext net ''GET'' uri of
        Some err \<Rightarrow> ([], Inl err)
      | None \<Rightarrow>
          let req = Resolve_req r rr in
          (case client_Do net req of
             Inl err \<Rightarrow>
               ([ClientDo req],
                Inl (Errorf (''failed to connect to '' @ [CHR 0x27] @ uri @ [CHR 0x27] @ '': '' @ Error err)))
           | Inr res \<Rightarrow>
               (case (if Debug r then debug_dump net req res else Inr []) of
                  Inl err \<Rightarrow> ([ClientDo req, BodyClose], Inl err)
                | Inr logged \<Rightarrow> (ClientDo req # logged @ [BodyClose], read_body net res))))"

subsection \<open>Concrete configurations and requests\<close>

definition ex_rails :: AuthRails where
  "ex_rails = \<lparr>Rails_Version = '''', Rails_SecretKeyBase = '''', Rails_URL = '''',
     Rails_Password = '''', Rails_MaxIdle = 0, Rails_MaxActive = 0, Rails_Salt = '''',
     Rails_SignSalt = '''', Rails_AuthSalt = ''''\<rparr>"

definition ex_header_auth :: "unit Auth" where
  "ex_header_auth = \<lparr>Development = False, Name = ''api'', Type = ''header'', Cookie = '''',
     Rails = ex_rails, JWT = (),
     Header = \<lparr>Header_Name = ''X-Api-Key'', Header_Value = '''', Header_Exists = True\<rparr>\<rparr>"

definition ex_both_auth :: "unit Auth" where
  "ex_both_auth = ex_header_auth\<lparr>Header :=
     \<lparr>Header_Name = ''X-Api-Key'', Header_Value = ''secret'', Header_Exists = True\<rparr>\<rparr>"

definition ex_unknown_auth :: "unit Auth" where
  "ex_unknown_auth = ex_header_auth\<lparr>Type := ''bogus''\<rparr>"

definition ex_request :: Request where
  "ex_request = \<lparr>Header_Get = (\<lambda>name. if name = ''X-Api-Key'' then ''k1'' else ''''),
     Context = [], IsWebSocketUpgrade = False\<rparr>"

definition ex_anonymous :: Request where
  "ex_anonymous = \<lparr>Header_Get = (\<lambda>name. ''''), Context = [], IsWebSocketUpgrade = False\<rparr>"

definition ex_user_request :: Request where
  "ex_user_request = \<lparr>Header_Get = (\<lambda>name. if name = ''X-User-ID'' then ''42'' else ''''),
     Context = [(OtherKey ''trace'', Some (IntVal 7))], IsWebSocketUpgrade = False\<rparr>"

definition ex_upgrade :: Request where
  "ex_upgrade = ex_request\<lparr>IsWebSocketUpgrade := True\<rparr>"

definition ex_unavailable :: "unit Auth \<Rightarrow> error + HandlerFunc" where
  "ex_unavailable ac = Inl (Errorf ''unavailable'')"

definition ex_soft_failure :: HandlerFunc where
  "ex_soft_failure r = (None, Some (Errorf ''cookie store unreachable''))"

definition ex_deny :: HandlerFunc where
  "ex_deny r = (None, Some Err401)"

definition ex_big_id :: Context where
  "ex_big_id = [(UserIDKey, Some (StringVal ''99999999999999999999''))]"

definition ex_negative_id :: Context where
  "ex_negative_id = [(UserIDKey, Some (StringVal ''-42'')), (UserIDKey, Some (IntVal 7))]"

definition ex_api :: remoteAPI where
  "ex_api = \<lparr>URL = ''http://api/users/$id/orders?u=$id'', Debug = False, PassHeaders = [],
     SetHeaders = [\<lparr>hdr_Name = ''X-Token'', hdr_Value = ''t''\<rparr>]\<rparr>"

definition ex_rr :: ResolverReq where
  "ex_rr = \<lparr>ID = ''7''\<rparr>"

definition ex_rr_newline :: ResolverReq where
  "ex_rr_newline = \<lparr>ID = [CHR ''7'', CHR 0x0A]\<rparr>"

text \<open>
  A network for the examples: as \<^verbatim>\<open>net/url\<close> does, it refuses to build a request
  for a URL with an ASCII control character; the server answers 200 with the body
  \<^verbatim>\<open>[7]\<close>, the only body its validator accepts.
\<close>

definition ex_net :: Net where
  "ex_net = \<lparr>
     NewRequestWithContext = (\<lambda>method url.
       if list_ex (\<lambda>c. (of_char c :: nat) < 32 \<or> c = CHR 0x7F) url
       then Some (Errorf ''net/url: invalid control character in URL'') else None),
     client_Do = (\<lambda>req. Inr \<lparr>StatusCode = 200, Body = Inr ''[7]''\<rparr>),
     DumpRequestOut = (\<lambda>req. Inr (Method req @ '' '' @ Req_URL req)),
     DumpResponse = (\<lambda>res. Inr (FormatInt (StatusCode res))),
     ValidateBytes = (\<lambda>b. if b = ''[7]'' then None else Some (Errorf ''invalid json''))\<rparr>"

text \<open>The same resolver in debug mode, and a network on which the response cannot be dumped.\<close>

definition ex_api_debug :: remoteAPI where
  "ex_api_debug = ex_api\<lparr>Debug := True\<rparr>"

definition ex_net_nodump :: Net where
  "ex_net_nodump = ex_net\<lparr>DumpResponse := (\<lambda>res. Inl (Errorf ''unexpected EOF''))\<rparr>"

subsection \<open>The words of the specification\<close>

text \<open>
  For \<^verbatim>\<open>UserIDInt\<close>: a numeric string is an optional sign followed by one or more
  decimal digits; its integer parse is the number it denotes; an integer fits
  \<^verbatim>\<open>int\<close> when it lies in \<open>[- 2 ^ (intSize - 1), 2 ^ (intSize - 1))\<close>. These follow
  the words of the specification, not the code of \<^verbatim>\<open>strconv\<close>.
\<close>

definition decimal :: "string \<Rightarrow> nat" where
  "decimal ds = foldl (\<lambda>n c. n * 10 + digitVal c) 0 ds"

definition unsigned_part :: "string \<Rightarrow> string" where
  "unsigned_part s =
     (case s of [] \<Rightarrow> [] | c # rest \<Rightarrow> if c = CHR ''+'' \<or> c = CHR ''-'' then rest else s)"

definition spec_numeric :: "string \<Rightarrow> bool" where
  "spec_numeric s = (unsigned_part s \<noteq> [] \<and> list_all isDigit (unsigned_part s))"

definition spec_integer_parse :: "string \<Rightarrow> int" where
  "spec_integer_parse s =
     (if take 1 s = ''-'' then - int (decimal (unsigned_part s))
      else int (decimal (unsigned_part s)))"

definition spec_fits_int :: "int \<Rightarrow> bool" where
  "spec_fits_int i = (- (2 ^ (intSize - 1)) \<le> i \<and> i < 2 ^ (intSize - 1))"

text \<open>
  For \<^verbatim>\<open>Resolve\<close>: a URL template is a list of pieces joined by the placeholder, as
  \<^verbatim>\<open>strings.Join\<close> joins them; replacing every placeholder by the ID is joining the
  same pieces by the ID.
\<close>

fun Join :: "string list \<Rightarrow> string \<Rightarrow> string" where
  "Join [] sep = []"
| "Join [p] sep = p"
| "Join (p # q # ps) sep = p @ sep @ Join (q # ps) sep"

section \<open>Properties of the middleware\<close>

subsection \<open>What a decorated handler can do\<close>

lemma NewAuth_ah:
  "NewAuth RH JH ac log opt hFn = Inr mw \<Longrightarrow> \<exists>ws h. mw = ah ws h ac log opt"
  by (auto simp: NewAuth_def split: list.splits option.splits sum.splits)

text \<open>
  A request whose strategy result is not the sentinel is forwarded or rejected as the
  fail-block rule says, provided the strategy returned a context or the wrapper does not
  block: these are the cases in which \<^verbatim>\<open>IsAuth\<close> is not applied to nil.
\<close>

lemma authenticate_outcome:
  "h r = (c, err) \<Longrightarrow> err \<noteq> Some Err401 \<Longrightarrow> c \<noteq> None \<or> \<not> AuthFailBlock opt \<Longrightarrow>
   authenticate h ac log opt r =
     ([StrategyCalled r] @
      (case err of Some e \<Rightarrow> if log \<noteq> None then [LogError ''Auth'' (Type ac) e] else []
       | None \<Rightarrow> []) @
      [if \<not> AuthFailBlock opt \<or> (\<exists>c'. c = Some c' \<and> ctx_Value c' UserIDKey \<noteq> None)
       then NextServeHTTP (case c of Some c' \<Rightarrow> r\<lparr>Context := c'\<rparr> | None \<Rightarrow> r)
       else HttpError ''401 unauthorized'' 401], Returned)"
  by (auto simp: authenticate_def IsAuth_def StatusUnauthorized_def Let_def split: option.splits)

text \<open>The only way to a panic: fail-block, no sentinel, and a nil context.\<close>

lemma authenticate_panics_iff:
  "snd (authenticate h ac log opt r) = Panicked \<longleftrightarrow>
     AuthFailBlock opt \<and> snd (h r) \<noteq> Some Err401 \<and> fst (h r) = None"
  by (cases "h r")
     (auto simp: authenticate_def IsAuth_def Let_def split: option.splits)

text \<open>
  Claim C1. The claim: for every request the middleware of \<^verbatim>\<open>NewAuth\<close> ends normally,
  having either called the downstream handler or written a 401, also when the strategy
  returns a nil context with a nil error (as the header strategy does on success) and
  \<^verbatim>\<open>AuthFailBlock\<close> is set. The code: with the header strategy selected from the
  configuration, \<^verbatim>\<open>AuthFailBlock = true\<close> and a request that carries the header, the
  strategy succeeds with \<^verbatim>\<open>(nil, nil)\<close>, \<^verbatim>\<open>IsAuth(nil)\<close> calls a method of a nil
  interface, and the handler panics: nothing is forwarded and no 401 is written.
\<close>

theorem NewAuth_header_fail_block_panics:
  "NewAuth ex_unavailable ex_unavailable ex_header_auth None \<lparr>AuthFailBlock = True\<rparr> []
     = Inr (ah False (HeaderHandler_func (Header ex_header_auth)) ex_header_auth None
              \<lparr>AuthFailBlock = True\<rparr>)
   \<and> HeaderHandler_func (Header ex_header_auth) ex_request = (None, None)
   \<and> ah False (HeaderHandler_func (Header ex_header_auth)) ex_header_auth None
        \<lparr>AuthFailBlock = True\<rparr> ex_request
     = ([StrategyCalled ex_request], Panicked)"
  by (simp add: NewAuth_def NewAuthHandlerFunc_def wrap_err_def HeaderHandler_def
      ex_header_auth_def ah_def authenticate_def HeaderHandler_func_def ex_request_def
      IsAuth_def)

text \<open>
  Claim C2. The claim: when the strategy result is not the sentinel, the request is
  forwarded if \<^verbatim>\<open>AuthFailBlock\<close> is false or the returned context has a UserID, and is
  rejected with a 401 otherwise; an error that is not the sentinel is logged and never
  forces a rejection by itself. The code: a strategy that fails softly returns
  \<^verbatim>\<open>(nil, err)\<close>; with \<^verbatim>\<open>AuthFailBlock = true\<close> the error is logged and then
  \<^verbatim>\<open>IsAuth(nil)\<close> panics, where the claim has a 401. (Lemma \<open>authenticate_outcome\<close>
  is the claim on all the other inputs.)
\<close>

theorem authenticate_soft_error_nil_context_panics:
  "authenticate ex_soft_failure ex_header_auth (Some ZapLogger) \<lparr>AuthFailBlock = True\<rparr>
     ex_request
   = ([StrategyCalled ex_request,
       LogError ''Auth'' ''header'' (Errorf ''cookie store unreachable'')], Panicked)"
  by (simp add: authenticate_def ex_soft_failure_def IsAuth_def ex_header_auth_def)

text \<open>
  Claim C4. The strategy that \<^verbatim>\<open>HeaderHandler\<close> returns never returns a context; with
  \<^verbatim>\<open>Exists\<close> it succeeds (nil error) exactly when the value of the named header is not
  empty, without \<^verbatim>\<open>Exists\<close> exactly when that value is equal to the configured
  \<^verbatim>\<open>Value\<close>, byte for byte; in every other case its error is \<^verbatim>\<open>Err401\<close>.
\<close>

theorem HeaderHandler_strategy:
  assumes "HeaderHandler ac = Inr h"
  shows "h r = (None,
           if (if Header_Exists (Header ac)
               then Header_Get r (Header_Name (Header ac)) \<noteq> ''''
               else Header_Get r (Header_Name (Header ac)) = Header_Value (Header ac))
           then None else Some Err401)"
  using assms
  by (auto simp: HeaderHandler_def HeaderHandler_func_def Let_def split: if_splits)

theorem HeaderHandler_strategy_witness:
  "HeaderHandler ex_header_auth = Inr (HeaderHandler_func (Header ex_header_auth))
   \<and> HeaderHandler_func (Header ex_header_auth) ex_request = (None, None)
   \<and> HeaderHandler_func (Header ex_header_auth) ex_anonymous = (None, Some Err401)"
proof -
  have h: "HeaderHandler ex_header_auth = Inr (HeaderHandler_func (Header ex_header_auth))"
    by (simp add: HeaderHandler_def ex_header_auth_def)
  show ?thesis
    using h HeaderHandler_strategy [OF h, of ex_request]
      HeaderHandler_strategy [OF h, of ex_anonymous]
    by (simp add: ex_header_auth_def ex_request_def ex_anonymous_def)
qed

text \<open>
  Claim C5. When a request reaches the strategy (it is not a bypassed upgrade request)
  and the strategy returns \<^verbatim>\<open>Err401\<close>, the handler logs the error if it has a logger,
  calls \<^verbatim>\<open>http.Error\<close> with the message \<^verbatim>\<open>401 unauthorized\<close> and the status 401,
  and returns; it never calls the downstream handler.
\<close>

theorem ah_Err401_rejects:
  assumes "\<not> (wsAuthSupported \<and> IsWebSocketUpgrade r)" and "h r = (c, Some Err401)"
  shows "ah wsAuthSupported h ac log opt r =
           ([StrategyCalled r] @
            (if log \<noteq> None then [LogError ''Auth'' (Type ac) Err401] else []) @
            [HttpError ''401 unauthorized'' 401], Returned)
         \<and> (\<forall>r'. NextServeHTTP r' \<notin> set (fst (ah wsAuthSupported h ac log opt r)))"
  using assms by (auto simp: ah_def authenticate_def StatusUnauthorized_def)

theorem ah_Err401_rejects_witness:
  "\<not> (True \<and> IsWebSocketUpgrade ex_request) \<and> ex_deny ex_request = (None, Some Err401)
   \<and> ah True ex_deny ex_header_auth (Some ZapLogger) \<lparr>AuthFailBlock = False\<rparr> ex_request =
       ([StrategyCalled ex_request, LogError ''Auth'' ''header'' Err401,
         HttpError ''401 unauthorized'' 401], Returned)"
proof -
  have a: "\<not> (True \<and> IsWebSocketUpgrade ex_request)" by (simp add: ex_request_def)
  have b: "ex_deny ex_request = (None, Some Err401)" by (simp add: ex_deny_def)
  show ?thesis
    using a b
      ah_Err401_rejects [where wsAuthSupported = True and r = ex_request and h = ex_deny
        and c = None and ac = ex_header_auth and log = "Some ZapLogger"
        and opt = "\<lparr>AuthFailBlock = False\<rparr>"]
    by (simp add: ex_header_auth_def)
qed

text \<open>
  Claim C6. A wrapper built with a non-nil strategy of the caller forwards every upgrade
  request as it is: the only event is the call of the downstream handler with the
  request itself, so the strategy is not called and \<^verbatim>\<open>AuthFailBlock\<close> has no part.
  A wrapper built without one (no argument, or a nil one) treats an upgrade request as
  any other: it runs the strategy selected from the configuration.
\<close>

theorem NewAuth_upgrade_bypass:
  "(\<exists>mw. NewAuth RH JH ac log opt (Some h # rest) = Inr mw \<and>
         (IsWebSocketUpgrade r \<longrightarrow> mw r = ([NextServeHTTP r], Returned)))
   \<and> ((hFn = [] \<or> (\<exists>rest'. hFn = None # rest')) \<longrightarrow>
        NewAuth RH JH ac log opt hFn = Inr mw' \<longrightarrow>
        (\<exists>h'. NewAuthHandlerFunc RH JH ac = Inr h' \<and> mw' r = authenticate h' ac log opt r))"
  by (auto simp: NewAuth_def ah_def split: sum.splits)

theorem NewAuth_upgrade_bypass_witness:
  "IsWebSocketUpgrade ex_upgrade
   \<and> NewAuth ex_unavailable ex_unavailable ex_header_auth None \<lparr>AuthFailBlock = True\<rparr>
       [Some ex_deny] = Inr (ah True ex_deny ex_header_auth None \<lparr>AuthFailBlock = True\<rparr>)
   \<and> ah True ex_deny ex_header_auth None \<lparr>AuthFailBlock = True\<rparr> ex_upgrade
       = ([NextServeHTTP ex_upgrade], Returned)
   \<and> NewAuth ex_unavailable ex_unavailable ex_header_auth None \<lparr>AuthFailBlock = False\<rparr>
       [None] = Inr (ah False (HeaderHandler_func (Header ex_header_auth)) ex_header_auth None
                       \<lparr>AuthFailBlock = False\<rparr>)
   \<and> ah False (HeaderHandler_func (Header ex_header_auth)) ex_header_auth None
       \<lparr>AuthFailBlock = False\<rparr> ex_upgrade
       = ([StrategyCalled ex_upgrade, NextServeHTTP ex_upgrade], Returned)"
proof -
  have u: "IsWebSocketUpgrade ex_upgrade" by (simp add: ex_upgrade_def)
  have n: "NewAuth ex_unavailable ex_unavailable ex_header_auth None \<lparr>AuthFailBlock = False\<rparr>
       [None] = Inr (ah False (HeaderHandler_func (Header ex_header_auth)) ex_header_auth None
                       \<lparr>AuthFailBlock = False\<rparr>)"
    by (simp add: NewAuth_def NewAuthHandlerFunc_def wrap_err_def HeaderHandler_def
        ex_header_auth_def)
  have s: "NewAuthHandlerFunc ex_unavailable ex_unavailable ex_header_auth
             = Inr (HeaderHandler_func (Header ex_header_auth))"
    by (simp add: NewAuthHandlerFunc_def wrap_err_def HeaderHandler_def ex_header_auth_def)
  have e: "authenticate (HeaderHandler_func (Header ex_header_auth)) ex_header_auth None
             \<lparr>AuthFailBlock = False\<rparr> ex_upgrade
           = ([StrategyCalled ex_upgrade, NextServeHTTP ex_upgrade], Returned)"
    by (simp add: authenticate_def HeaderHandler_func_def ex_header_auth_def ex_upgrade_def
        ex_request_def)
  show ?thesis
    using u n s e
      NewAuth_upgrade_bypass [of ex_unavailable ex_unavailable ex_header_auth None
        "\<lparr>AuthFailBlock = True\<rparr>" ex_deny "[]" ex_upgrade "[]" undefined]
      NewAuth_upgrade_bypass [of ex_unavailable ex_unavailable ex_header_auth None
        "\<lparr>AuthFailBlock = False\<rparr>" ex_deny "[]" ex_upgrade "[None]"
        "ah False (HeaderHandler_func (Header ex_header_auth)) ex_header_auth None
           \<lparr>AuthFailBlock = False\<rparr>"]
    by (auto simp: NewAuth_def)
qed

text \<open>
  Claim C7. \<^verbatim>\<open>SimpleHandler\<close> always yields a strategy, and that strategy always returns
  a nil error together with the context of the request, extended by one frame for each
  of the headers \<^verbatim>\<open>X-User-ID-Provider\<close>, \<^verbatim>\<open>X-User-ID\<close> and \<^verbatim>\<open>X-User-Role\<close> whose
  value is not empty, and by nothing else; with all three empty it is the context of the
  request itself.
\<close>

theorem SimpleHandler_strategy:
  "\<exists>h. SimpleHandler ac = Inr h \<and>
       h r = (Some ((if Header_Get r ''X-User-Role'' \<noteq> ''''
                     then [(UserRoleKey, Some (StringVal (Header_Get r ''X-User-Role'')))]
                     else []) @
                    (if Header_Get r ''X-User-ID'' \<noteq> ''''
                     then [(UserIDKey, Some (StringVal (Header_Get r ''X-User-ID'')))]
                     else []) @
                    (if Header_Get r ''X-User-ID-Provider'' \<noteq> ''''
                     then [(UserIDProviderKey,
                            Some (StringVal (Header_Get r ''X-User-ID-Provider'')))]
                     else []) @
                    Context r), None) \<and>
       (Header_Get r ''X-User-ID-Provider'' = '''' \<and> Header_Get r ''X-User-ID'' = '''' \<and>
        Header_Get r ''X-User-Role'' = '''' \<longrightarrow> h r = (Some (Context r), None))"
  by (simp add: SimpleHandler_def SimpleHandler_func_def WithValue_def Let_def)

theorem SimpleHandler_strategy_witness:
  "SimpleHandler ex_header_auth = Inr SimpleHandler_func
   \<and> SimpleHandler_func ex_user_request
       = (Some [(UserIDKey, Some (StringVal ''42'')), (OtherKey ''trace'', Some (IntVal 7))], None)
   \<and> SimpleHandler_func ex_anonymous = (Some [], None)"
proof -
  obtain h where h: "SimpleHandler ex_header_auth = Inr h"
    and "h ex_user_request
       = (Some [(UserIDKey, Some (StringVal ''42'')), (OtherKey ''trace'', Some (IntVal 7))], None)"
    using SimpleHandler_strategy [of ex_header_auth ex_user_request]
    by (auto simp: ex_user_request_def)
  moreover obtain h' where "SimpleHandler ex_header_auth = Inr h'"
    and "h' ex_anonymous = (Some [], None)"
    using SimpleHandler_strategy [of ex_header_auth ex_anonymous]
    by (auto simp: ex_anonymous_def)
  ultimately show ?thesis by (simp add: SimpleHandler_def)
qed

lemma authenticate_config_only_logs:
  "snd (authenticate h ac' log opt r) = snd (authenticate h ac log opt r)
   \<and> filter (\<lambda>e. \<not> is_LogError e) (fst (authenticate h ac' log opt r))
     = filter (\<lambda>e. \<not> is_LogError e) (fst (authenticate h ac log opt r))"
  by (cases "h r")
     (auto simp: authenticate_def IsAuth_def Let_def split: option.splits)

text \<open>
  Claim C10. With a non-nil strategy of the caller as first optional argument,
  \<^verbatim>\<open>NewAuth\<close> returns a middleware and no error whatever the configuration is: the
  result does not mention the selector. The handler depends on the configuration
  through its field \<^verbatim>\<open>Type\<close> only, and that field shows in the log entries only: with
  any other configuration the handler ends in the same way, and its events other than
  the log entries are the same.
\<close>

theorem NewAuth_external_strategy:
  "NewAuth RH JH ac log opt (Some h # rest) = Inr (ah True h ac log opt)
   \<and> (Type ac' = Type ac \<longrightarrow> ah True h ac' log opt = ah True h ac log opt)
   \<and> snd (ah True h ac'' log opt r) = snd (ah True h ac log opt r)
   \<and> filter (\<lambda>e. \<not> is_LogError e) (fst (ah True h ac'' log opt r))
     = filter (\<lambda>e. \<not> is_LogError e) (fst (ah True h ac log opt r))"
proof -
  have "ah True h ac' log opt = ah True h ac log opt" if eq: "Type ac' = Type ac"
    by (rule ext) (simp only: ah_def authenticate_def eq)
  then show ?thesis
    using authenticate_config_only_logs [of h ac'' log opt r ac]
    by (simp add: NewAuth_def ah_def)
qed

theorem NewAuth_external_strategy_witness:
  "NewAuthHandlerFunc ex_unavailable ex_unavailable ex_unknown_auth
     = Inl (Errorf ''auth: unknown auth type: bogus'')
   \<and> NewAuth ex_unavailable ex_unavailable ex_unknown_auth None \<lparr>AuthFailBlock = True\<rparr>
       [Some ex_deny] = Inr (ah True ex_deny ex_unknown_auth None \<lparr>AuthFailBlock = True\<rparr>)
   \<and> Type (ex_unknown_auth\<lparr>Name := ''other''\<rparr>) = Type ex_unknown_auth
   \<and> ah True ex_deny (ex_unknown_auth\<lparr>Name := ''other''\<rparr>) None \<lparr>AuthFailBlock = True\<rparr>
       = ah True ex_deny ex_unknown_auth None \<lparr>AuthFailBlock = True\<rparr>"
proof -
  have t: "Type (ex_unknown_auth\<lparr>Name := ''other''\<rparr>) = Type ex_unknown_auth" by simp
  have e: "NewAuthHandlerFunc ex_unavailable ex_unavailable ex_unknown_auth
     = Inl (Errorf ''auth: unknown auth type: bogus'')"
    by (simp add: NewAuthHandlerFunc_def ex_unknown_auth_def ex_header_auth_def)
  show ?thesis
    using t e
      NewAuth_external_strategy [where RH = ex_unavailable and JH = ex_unavailable
        and ac = ex_unknown_auth and log = None and opt = "\<lparr>AuthFailBlock = True\<rparr>"
        and h = ex_deny and rest = "[]" and ac' = "ex_unknown_auth\<lparr>Name := ''other''\<rparr>"
        and ac'' = ex_header_auth and r = ex_request]
    by simp
qed

section \<open>Properties of the strategy selector\<close>

text \<open>
  On every configuration but one kind the selector fails exactly when the header
  configuration lacks a name or does not have exactly one of \<^verbatim>\<open>Exists\<close> and a non-empty
  \<^verbatim>\<open>Value\<close>, or the type is empty, \<^verbatim>\<open>none\<close> or unknown, or the constructor for
  \<^verbatim>\<open>jwt\<close> or \<^verbatim>\<open>rails\<close> fails. The kind left out is the header configuration with a
  name, \<^verbatim>\<open>Exists\<close> and a non-empty \<^verbatim>\<open>Value\<close>.
\<close>

lemma NewAuthHandlerFunc_error_iff:
  assumes "\<not> Development ac"
    and "\<not> (Type ac = ''header'' \<and> Header_Name (Header ac) \<noteq> '''' \<and>
            Header_Exists (Header ac) \<and> Header_Value (Header ac) \<noteq> '''')"
  shows "(isl (NewAuthHandlerFunc RH JH ac) \<longleftrightarrow>
            (Type ac = ''header'' \<and>
               (Header_Name (Header ac) = '''' \<or>
                Header_Exists (Header ac) = (Header_Value (Header ac) \<noteq> '''')))
            \<or> Type ac = '''' \<or> Type ac = ''none''
            \<or> Type ac \<notin> {''rails'', ''jwt'', ''header'', '''', ''none''}
            \<or> (Type ac = ''jwt'' \<and> isl (JH ac))
            \<or> (Type ac = ''rails'' \<and> isl (RH ac)))
         \<and> (NewAuthHandlerFunc RH JH ac = Inl ErrNoAuthDefined \<longleftrightarrow>
              Type ac = '''' \<or> Type ac = ''none'')
         \<and> (Type ac \<notin> {''rails'', ''jwt'', ''header'', '''', ''none''} \<longrightarrow>
              NewAuthHandlerFunc RH JH ac = Inl (Errorf (''auth: unknown auth type: '' @ Type ac)))"
  using assms
  by (auto simp: NewAuthHandlerFunc_def wrap_err_def HeaderHandler_def Let_def
      split: sum.splits)

text \<open>
  Claim C3. The claim: without \<^verbatim>\<open>Development\<close> the selector returns a configuration
  error, and no strategy, for a header configuration that does not have exactly one of
  \<^verbatim>\<open>Header.Exists\<close> and a non-empty \<^verbatim>\<open>Header.Value\<close>; the comments of the two fields say
  the same (\<^verbatim>\<open>Value if set must match expected value\<close>, \<^verbatim>\<open>Exists\<close> is
  \<^verbatim>\<open>an alternative to using value\<close>). The code: \<^verbatim>\<open>HeaderHandler\<close> rejects only a
  configuration with neither. With both set it returns a strategy, and that strategy
  tests for existence only: a request whose header is \<^verbatim>\<open>k1\<close> passes although the
  configured value is \<^verbatim>\<open>secret\<close>.
\<close>

theorem NewAuthHandlerFunc_accepts_exists_and_value:
  "\<not> Development ex_both_auth \<and> Type ex_both_auth = ''header''
   \<and> Header_Name (Header ex_both_auth) = ''X-Api-Key''
   \<and> Header_Exists (Header ex_both_auth) \<and> Header_Value (Header ex_both_auth) = ''secret''
   \<and> NewAuthHandlerFunc ex_unavailable ex_unavailable ex_both_auth
       = Inr (HeaderHandler_func (Header ex_both_auth))
   \<and> Header_Get ex_request ''X-Api-Key'' = ''k1''
   \<and> HeaderHandler_func (Header ex_both_auth) ex_request = (None, None)"
  by (simp add: NewAuthHandlerFunc_def wrap_err_def HeaderHandler_def ex_both_auth_def
      ex_header_auth_def HeaderHandler_func_def ex_request_def)

section \<open>Properties of the identity accessors\<close>

subsection \<open>What \<^verbatim>\<open>Atoi\<close> accepts\<close>

lemma foldl_decimal_mono: "n \<le> foldl (\<lambda>n c. n * 10 + digitVal c) n s"
proof (induction s arbitrary: n)
  case Nil
  show ?case by simp
next
  case (Cons c s)
  have "n \<le> n * 10 + digitVal c" by simp
  also have "\<dots> \<le> foldl (\<lambda>n c. n * 10 + digitVal c) (n * 10 + digitVal c) s"
    by (rule Cons.IH)
  finally show ?case by simp
qed

lemma ParseUint_loop_digits:
  "list_all isDigit s \<Longrightarrow> n \<le> 2 ^ intSize - 1 \<Longrightarrow>
   ParseUint_loop n s =
     (if foldl (\<lambda>n c. n * 10 + digitVal c) n s \<le> 2 ^ intSize - 1
      then Inr (foldl (\<lambda>n c. n * 10 + digitVal c) n s) else Inl ErrRange)"
proof (induction s arbitrary: n)
  case Nil
  then show ?case by simp
next
  case (Cons c s)
  let ?m = "n * 10 + digitVal c"
  show ?case
  proof (cases "?m \<le> 2 ^ intSize - 1")
    case True
    with Cons show ?thesis by simp
  next
    case False
    moreover have "?m \<le> foldl (\<lambda>n c. n * 10 + digitVal c) ?m s"
      by (rule foldl_decimal_mono)
    ultimately show ?thesis using Cons.prems by simp
  qed
qed

lemma ParseUint_loop_not_digits:
  "\<not> list_all isDigit s \<Longrightarrow> isl (ParseUint_loop n s)"
  by (induction s arbitrary: n) auto

lemma ParseUint_Inr_iff:
  "ParseUint s = Inr n \<longleftrightarrow>
     s \<noteq> [] \<and> list_all isDigit s \<and> decimal s \<le> 2 ^ intSize - 1 \<and> n = decimal s"
proof (cases "s \<noteq> [] \<and> list_all isDigit s")
  case True
  then show ?thesis by (auto simp: ParseUint_def decimal_def ParseUint_loop_digits)
next
  case False
  then show ?thesis using ParseUint_loop_not_digits [of s 0]
    by (auto simp: ParseUint_def)
qed

text \<open>\<^verbatim>\<open>Atoi\<close> succeeds exactly on the numeric strings whose value fits \<^verbatim>\<open>int\<close>.\<close>

lemma Atoi_Inr_iff:
  "Atoi s = Inr i \<longleftrightarrow>
     spec_numeric s \<and> spec_fits_int (spec_integer_parse s) \<and> i = spec_integer_parse s"
proof (cases s)
  case Nil
  then show ?thesis by (simp add: Atoi_def ParseInt_def spec_numeric_def unsigned_part_def)
next
  case (Cons c rest)
  show ?thesis
  proof (cases "ParseUint (unsigned_part s)")
    case (Inl e)
    then have "\<not> spec_numeric s \<or> \<not> decimal (unsigned_part s) \<le> 2 ^ intSize - 1"
      using ParseUint_Inr_iff [of "unsigned_part s" "decimal (unsigned_part s)"]
      by (auto simp: spec_numeric_def)
    moreover have "\<not> spec_fits_int (spec_integer_parse s)"
      if "\<not> decimal (unsigned_part s) \<le> 2 ^ intSize - 1"
      using that by (auto simp: spec_fits_int_def spec_integer_parse_def intSize_def)
    ultimately show ?thesis using Inl Cons
      by (auto simp: Atoi_def ParseInt_def unsigned_part_def Let_def)
  next
    case (Inr un)
    then have u: "spec_numeric s" "un = decimal (unsigned_part s)"
      by (auto simp: ParseUint_Inr_iff spec_numeric_def)
    show ?thesis using Inr Cons u
      by (auto simp: Atoi_def ParseInt_def unsigned_part_def Let_def spec_fits_int_def
          spec_integer_parse_def intSize_def split: if_splits)
  qed
qed

text \<open>
  Claim C8, as stated, fails. The claim has \<^verbatim>\<open>UserIDInt\<close> return the integer parse of
  every numeric UserID. A UserID of twenty nines is a numeric string, and its integer
  parse is not \<open>- 1\<close>; but the number does not fit \<^verbatim>\<open>int\<close>, \<^verbatim>\<open>Atoi\<close> returns a range
  error, and \<^verbatim>\<open>UserIDInt\<close> returns \<open>- 1\<close>.
\<close>

theorem UserIDInt_numeric_out_of_range:
  "ctx_Value ex_big_id UserIDKey = Some (StringVal ''99999999999999999999'')
   \<and> spec_numeric ''99999999999999999999''
   \<and> spec_integer_parse ''99999999999999999999'' = 99999999999999999999
   \<and> UserIDInt (Some ex_big_id) = Inr (- 1)"
  by (simp add: ex_big_id_def spec_numeric_def unsigned_part_def isDigit_def
      spec_integer_parse_def decimal_def digitVal_def UserIDInt_def UserID_def Atoi_def
      ParseInt_def ParseUint_def intSize_def)

text \<open>
  Claim C8, amended. For every (non-nil) context \<^verbatim>\<open>UserIDInt\<close> returns, without a
  panic: the integer parse of the UserID when the UserID is a numeric string whose
  value fits \<^verbatim>\<open>int\<close>; and \<open>- 1\<close> in every other case, that is when the UserID is
  absent or nil, not a string, empty or otherwise not numeric, or numeric and out of range.
\<close>

theorem UserIDInt_value:
  "UserIDInt (Some c) =
     Inr (case ctx_Value c UserIDKey of
            Some (StringVal s) \<Rightarrow>
              if spec_numeric s \<and> spec_fits_int (spec_integer_parse s)
              then spec_integer_parse s else - 1
          | _ \<Rightarrow> - 1)"
proof -
  have "(case Atoi s of Inr n \<Rightarrow> Inr n | Inl err \<Rightarrow> Inr (- 1)) =
        (Inr (if spec_numeric s \<and> spec_fits_int (spec_integer_parse s)
              then spec_integer_parse s else - 1) :: panic + int)" for s
    using Atoi_Inr_iff [of s] by (cases "Atoi s") auto
  then show ?thesis
    by (simp add: UserIDInt_def UserID_def split: option.splits iface.splits)
qed

theorem UserIDInt_value_witness:
  "UserIDInt (Some ex_negative_id) = Inr (- 42)
   \<and> UserIDInt (Some [(UserIDKey, Some (StringVal ''abc''))]) = Inr (- 1)
   \<and> UserIDInt (Some [(UserIDKey, Some (StringVal ''''))]) = Inr (- 1)
   \<and> UserIDInt (Some [(UserIDKey, Some (IntVal 42))]) = Inr (- 1)
   \<and> UserIDInt (Some []) = Inr (- 1)"
  using UserIDInt_value [of ex_negative_id]
    UserIDInt_value [of "[(UserIDKey, Some (StringVal ''abc''))]"]
    UserIDInt_value [of "[(UserIDKey, Some (StringVal ''''))]"]
    UserIDInt_value [of "[(UserIDKey, Some (IntVal 42))]"]
    UserIDInt_value [of "[]"]
  by (simp add: ex_negative_id_def spec_numeric_def unsigned_part_def isDigit_def
      spec_integer_parse_def decimal_def digitVal_def spec_fits_int_def intSize_def)

section \<open>Properties of the remote resolver\<close>

subsection \<open>Replacing the placeholder\<close>

lemma ReplaceAll_id_Cons:
  "ReplaceAll (c # s) ''$id'' new =
     (if c = CHR ''$'' \<and> prefix ''id'' s then new @ ReplaceAll (drop 2 s) ''$id'' new
      else c # ReplaceAll s ''$id'' new)"
proof (cases s)
  case Nil
  then show ?thesis by simp
next
  case c1: (Cons x s1)
  then show ?thesis by (cases s1) auto
qed

lemma ReplaceAll_no_placeholder:
  "\<not> sublist ''$id'' s \<Longrightarrow> ReplaceAll s ''$id'' new = s"
proof (induction s)
  case Nil
  show ?case by simp
next
  case (Cons c s)
  from Cons.prems have n: "\<not> (c = CHR ''$'' \<and> prefix ''id'' s)"
    and "\<not> sublist ''$id'' s"
    by (auto simp: sublist_Cons_right)
  then have "ReplaceAll s ''$id'' new = s" by (rule_tac Cons.IH)
  moreover have "ReplaceAll (c # s) ''$id'' new = c # ReplaceAll s ''$id'' new"
    by (simp only: ReplaceAll_id_Cons n if_False)
  ultimately show ?case by simp
qed

lemma prefix_id_append:
  "prefix ''id'' (s @ CHR ''$'' # t) \<longleftrightarrow> prefix ''id'' s"
proof (cases s)
  case Nil
  then show ?thesis by simp
next
  case c1: (Cons x s1)
  then show ?thesis by (cases s1) auto
qed

text \<open>A placeholder is always replaced, whatever stands before it and after it.\<close>

lemma ReplaceAll_placeholder:
  "ReplaceAll (a @ ''$id'' @ b) ''$id'' new =
   ReplaceAll a ''$id'' new @ new @ ReplaceAll b ''$id'' new"
proof (induction a rule: length_induct)
  case (1 a)
  have IH: "ReplaceAll (t @ CHR ''$'' # ''id'' @ b) ''$id'' new =
            ReplaceAll t ''$id'' new @ new @ ReplaceAll b ''$id'' new"
    if "length t < length a" for t
    using 1 that by simp
  show ?case
  proof (cases a)
    case Nil
    then show ?thesis by simp
  next
    case (Cons c s)
    show ?thesis
    proof (cases "c = CHR ''$'' \<and> prefix ''id'' s")
      case True
      then obtain s' where s: "s = ''id'' @ s'"
        by (auto elim: prefixE)
      have "length s' < length a" using Cons s by simp
      from IH [OF this] show ?thesis using Cons s True by simp
    next
      case False
      have n: "\<not> (c = CHR ''$'' \<and> prefix ''id'' (s @ CHR ''$'' # ''id'' @ b))"
        using False by (simp add: prefix_id_append)
      have "length s < length a" using Cons by simp
      from IH [OF this]
      have "c # ReplaceAll (s @ CHR ''$'' # ''id'' @ b) ''$id'' new =
            (c # ReplaceAll s ''$id'' new) @ new @ ReplaceAll b ''$id'' new"
        by simp
      moreover have "ReplaceAll (c # s @ CHR ''$'' # ''id'' @ b) ''$id'' new =
                     c # ReplaceAll (s @ CHR ''$'' # ''id'' @ b) ''$id'' new"
        by (simp only: ReplaceAll_id_Cons n if_False)
      moreover have "ReplaceAll (c # s) ''$id'' new = c # ReplaceAll s ''$id'' new"
        by (simp only: ReplaceAll_id_Cons False if_False)
      ultimately show ?thesis using Cons by simp
    qed
  qed
qed

lemma ReplaceAll_Join:
  "\<forall>p \<in> set parts. \<not> sublist ''$id'' p \<Longrightarrow>
   ReplaceAll (Join parts ''$id'') ''$id'' new = Join parts new"
proof (induction parts)
  case Nil
  show ?case by simp
next
  case (Cons p ps)
  show ?case
  proof (cases ps)
    case Nil
    with Cons.prems show ?thesis by (simp add: ReplaceAll_no_placeholder)
  next
    case c1: (Cons q qs)
    have "ReplaceAll (p @ ''$id'' @ Join ps ''$id'') ''$id'' new =
          ReplaceAll p ''$id'' new @ new @ ReplaceAll (Join ps ''$id'') ''$id'' new"
      by (rule ReplaceAll_placeholder)
    also have "ReplaceAll p ''$id'' new = p"
      using Cons.prems by (simp add: ReplaceAll_no_placeholder)
    also have "ReplaceAll (Join ps ''$id'') ''$id'' new = Join ps new"
      using Cons by simp
    finally show ?thesis using c1 by simp
  qed
qed

subsection \<open>The round trip\<close>

lemma read_body_Inr:
  "read_body net res = Inr b \<longleftrightarrow>
     StatusCode res = 200 \<and> Body res = Inr b \<and> ValidateBytes net b = None"
  by (auto simp: read_body_def split: sum.splits option.splits)

lemma debug_dump_events:
  "debug_dump net req res = Inr evs \<Longrightarrow> ClientDo q \<notin> set evs"
  by (auto simp: debug_dump_def split: sum.splits)

text \<open>
  Claim C9, as stated, fails. The claim has \<^verbatim>\<open>Resolve\<close> issue a GET for every resolver
  request. When the URL that the substitution gives cannot be parsed (here the ID ends
  with a line feed), \<^verbatim>\<open>http.NewRequestWithContext\<close> fails and \<^verbatim>\<open>Resolve\<close> returns
  that error: no request is sent.
\<close>

theorem Resolve_unparsable_url_sends_nothing:
  "Resolve ex_net ex_api ex_rr_newline
   = ([], Inl (Errorf ''net/url: invalid control character in URL''))"
  by (simp add: Resolve_def Resolve_uri_def ex_net_def ex_api_def ex_rr_newline_def)

lemma Resolve_request_fails:
  "NewRequestWithContext net ''GET'' (Req_URL (Resolve_req r rr)) = Some err \<Longrightarrow>
   Resolve net r rr = ([], Inl err)"
  by (simp add: Resolve_def Resolve_req_def)

lemma Resolve_connect_fails:
  "NewRequestWithContext net ''GET'' (Req_URL (Resolve_req r rr)) = None \<Longrightarrow>
   client_Do net (Resolve_req r rr) = Inl err \<Longrightarrow>
   Resolve net r rr =
     ([ClientDo (Resolve_req r rr)],
      Inl (Errorf (''failed to connect to '' @ [CHR 0x27] @ Req_URL (Resolve_req r rr) @
                   [CHR 0x27] @ '': '' @ Error err)))"
  by (simp add: Resolve_def Resolve_req_def Let_def)

lemma Resolve_dump_fails:
  "NewRequestWithContext net ''GET'' (Req_URL (Resolve_req r rr)) = None \<Longrightarrow>
   client_Do net (Resolve_req r rr) = Inr res \<Longrightarrow> Debug r \<Longrightarrow>
   DumpRequestOut net (Resolve_req r rr) = Inl e \<or>
   (\<not> isl (DumpRequestOut net (Resolve_req r rr)) \<and> DumpResponse net res = Inl e) \<Longrightarrow>
   Resolve net r rr = ([ClientDo (Resolve_req r rr), BodyClose], Inl e)"
  by (auto simp: Resolve_def Let_def debug_dump_def Resolve_req_def split: sum.splits)

lemma Resolve_answer:
  "NewRequestWithContext net ''GET'' (Req_URL (Resolve_req r rr)) = None \<Longrightarrow>
   client_Do net (Resolve_req r rr) = Inr res \<Longrightarrow>
   \<not> Debug r \<or> (\<not> isl (DumpRequestOut net (Resolve_req r rr)) \<and> \<not> isl (DumpResponse net res)) \<Longrightarrow>
   fst (Resolve net r rr) =
     ClientDo (Resolve_req r rr) #
     (if Debug r
      then [LogPrintf ''DBG Remote Request:\<newline>%s\<newline>%s''
              (projr (DumpRequestOut net (Resolve_req r rr))) (projr (DumpResponse net res))]
      else []) @ [BodyClose]
   \<and> snd (Resolve net r rr) =
     (if StatusCode res \<noteq> 200
      then Inl (Errorf (''server responded with a '' @ FormatInt (StatusCode res)))
      else case Body res of
             Inl e \<Rightarrow> Inl e
           | Inr b \<Rightarrow> (case ValidateBytes net b of Some e \<Rightarrow> Inl e | None \<Rightarrow> Inr b))"
  by (auto simp: Resolve_def Let_def debug_dump_def read_body_def Resolve_req_def
      split: sum.splits)

lemma Resolve_succeeds_iff:
  "snd (Resolve net r rr) = Inr b \<longleftrightarrow>
     NewRequestWithContext net ''GET'' (Req_URL (Resolve_req r rr)) = None \<and>
     (\<exists>res. client_Do net (Resolve_req r rr) = Inr res \<and>
        (Debug r \<longrightarrow> \<not> isl (DumpRequestOut net (Resolve_req r rr)) \<and>
                     \<not> isl (DumpResponse net res)) \<and>
        StatusCode res = 200 \<and> Body res = Inr b \<and> ValidateBytes net b = None)"
  by (auto simp: Resolve_def Let_def debug_dump_def read_body_Inr Resolve_req_def
      split: sum.splits option.splits)

lemma Resolve_sends_one:
  "ClientDo q \<in> set (fst (Resolve net r rr)) \<Longrightarrow> q = Resolve_req r rr"
  by (auto simp: Resolve_def Let_def debug_dump_def Resolve_req_def
      split: sum.splits option.splits if_splits)

text \<open>
  Claim C9, amended. For every resolver request \<^verbatim>\<open>Resolve\<close> builds a GET request for
  the URL template with every occurrence of the placeholder replaced by the ID (the
  pieces of the template between the placeholders, joined by the ID), with the static
  headers set; it sends no other request. If the request cannot be built it returns
  that error and sends nothing. Otherwise it sends the request. If the round trip fails
  it returns a connection error; if, in debug mode, one of the two dumps fails it
  returns that error; otherwise (having logged the dumps in debug mode) it returns an
  error for a status other than 200, the error of reading the body, or the error of
  \<^verbatim>\<open>jsn.ValidateBytes\<close>, and else the body. So it succeeds, returning the body of the
  response, exactly when the request is built, the round trip succeeds, the dumps of
  the debug mode succeed, the status is 200, the body is read and the validator accepts
  it; in every other case it returns an error.
\<close>

theorem Resolve_result:
  "(\<forall>parts. URL r = Join parts ''$id'' \<and> list_all (\<lambda>p. \<not> sublist ''$id'' p) parts \<longrightarrow>
       Req_URL (Resolve_req r rr) = Join parts (ID rr))
   \<and> Method (Resolve_req r rr) = ''GET''
   \<and> Header_Set (Resolve_req r rr) = map (\<lambda>v. (hdr_Name v, hdr_Value v)) (SetHeaders r)
   \<and> (\<forall>q. ClientDo q \<in> set (fst (Resolve net r rr)) \<longrightarrow> q = Resolve_req r rr)
   \<and> (\<forall>err. NewRequestWithContext net ''GET'' (Req_URL (Resolve_req r rr)) = Some err \<longrightarrow>
         Resolve net r rr = ([], Inl err))
   \<and> (NewRequestWithContext net ''GET'' (Req_URL (Resolve_req r rr)) = None \<longrightarrow>
        (\<forall>err. client_Do net (Resolve_req r rr) = Inl err \<longrightarrow>
           Resolve net r rr =
             ([ClientDo (Resolve_req r rr)],
              Inl (Errorf (''failed to connect to '' @ [CHR 0x27] @ Req_URL (Resolve_req r rr) @
                           [CHR 0x27] @ '': '' @ Error err))))
      \<and> (\<forall>res. client_Do net (Resolve_req r rr) = Inr res \<longrightarrow>
           (\<forall>e. Debug r \<and>
                (DumpRequestOut net (Resolve_req r rr) = Inl e \<or>
                 (\<not> isl (DumpRequestOut net (Resolve_req r rr)) \<and>
                  DumpResponse net res = Inl e)) \<longrightarrow>
                Resolve net r rr = ([ClientDo (Resolve_req r rr), BodyClose], Inl e))
         \<and> (\<not> Debug r \<or> (\<not> isl (DumpRequestOut net (Resolve_req r rr)) \<and>
                            \<not> isl (DumpResponse net res)) \<longrightarrow>
              fst (Resolve net r rr) =
                ClientDo (Resolve_req r rr) #
                (if Debug r
                 then [LogPrintf ''DBG Remote Request:\<newline>%s\<newline>%s''
                         (projr (DumpRequestOut net (Resolve_req r rr)))
                         (projr (DumpResponse net res))]
                 else []) @ [BodyClose]
              \<and> snd (Resolve net r rr) =
                (if StatusCode res \<noteq> 200
                 then Inl (Errorf (''server responded with a '' @ FormatInt (StatusCode res)))
                 else case Body res of
                        Inl e \<Rightarrow> Inl e
                      | Inr b \<Rightarrow>
                          (case ValidateBytes net b of Some e \<Rightarrow> Inl e | None \<Rightarrow> Inr b)))))
   \<and> (\<forall>b. snd (Resolve net r rr) = Inr b \<longleftrightarrow>
          NewRequestWithContext net ''GET'' (Req_URL (Resolve_req r rr)) = None \<and>
          (\<exists>res. client_Do net (Resolve_req r rr) = Inr res \<and>
             (Debug r \<longrightarrow> \<not> isl (DumpRequestOut net (Resolve_req r rr)) \<and>
                          \<not> isl (DumpResponse net res)) \<and>
             StatusCode res = 200 \<and> Body res = Inr b \<and> ValidateBytes net b = None))"
proof (intro conjI allI impI)
  fix parts
  assume "URL r = Join parts ''$id'' \<and> list_all (\<lambda>p. \<not> sublist ''$id'' p) parts"
  then show "Req_URL (Resolve_req r rr) = Join parts (ID rr)"
    by (simp add: Resolve_req_def Resolve_uri_def ReplaceAll_Join list_all_iff)
next
  show "Method (Resolve_req r rr) = ''GET''" by (simp add: Resolve_req_def)
next
  show "Header_Set (Resolve_req r rr) = map (\<lambda>v. (hdr_Name v, hdr_Value v)) (SetHeaders r)"
    by (simp add: Resolve_req_def)
next
  fix q assume "ClientDo q \<in> set (fst (Resolve net r rr))"
  then show "q = Resolve_req r rr" by (rule Resolve_sends_one)
next
  fix err
  assume "NewRequestWithContext net ''GET'' (Req_URL (Resolve_req r rr)) = Some err"
  then show "Resolve net r rr = ([], Inl err)" by (rule Resolve_request_fails)
next
  fix err
  assume "NewRequestWithContext net ''GET'' (Req_URL (Resolve_req r rr)) = None"
    and "client_Do net (Resolve_req r rr) = Inl err"
  then show "Resolve net r rr =
             ([ClientDo (Resolve_req r rr)],
              Inl (Errorf (''failed to connect to '' @ [CHR 0x27] @ Req_URL (Resolve_req r rr) @
                           [CHR 0x27] @ '': '' @ Error err)))"
    by (rule Resolve_connect_fails)
next
  fix res e
  assume "NewRequestWithContext net ''GET'' (Req_URL (Resolve_req r rr)) = None"
    and "client_Do net (Resolve_req r rr) = Inr res"
    and "Debug r \<and>
         (DumpRequestOut net (Resolve_req r rr) = Inl e \<or>
          (\<not> isl (DumpRequestOut net (Resolve_req r rr)) \<and> DumpResponse net res = Inl e))"
  then show "Resolve net r rr = ([ClientDo (Resolve_req r rr), BodyClose], Inl e)"
    using Resolve_dump_fails [of net r rr res e] by blast
next
  fix res
  assume a: "NewRequestWithContext net ''GET'' (Req_URL (Resolve_req r rr)) = None"
    "client_Do net (Resolve_req r rr) = Inr res"
    "\<not> Debug r \<or> (\<not> isl (DumpRequestOut net (Resolve_req r rr)) \<and>
                   \<not> isl (DumpResponse net res))"
  from Resolve_answer [OF a]
  show "fst (Resolve net r rr) =
                ClientDo (Resolve_req r rr) #
                (if Debug r
                 then [LogPrintf ''DBG Remote Request:\<newline>%s\<newline>%s''
                         (projr (DumpRequestOut net (Resolve_req r rr)))
                         (projr (DumpResponse net res))]
                 else []) @ [BodyClose]"
    and "snd (Resolve net r rr) =
                (if StatusCode res \<noteq> 200
                 then Inl (Errorf (''server responded with a '' @ FormatInt (StatusCode res)))
                 else case Body res of
                        Inl e \<Rightarrow> Inl e
                      | Inr b \<Rightarrow>
                          (case ValidateBytes net b of Some e \<Rightarrow> Inl e | None \<Rightarrow> Inr b))"
    by simp_all
next
  fix b
  show "snd (Resolve net r rr) = Inr b \<longleftrightarrow>
          NewRequestWithContext net ''GET'' (Req_URL (Resolve_req r rr)) = None \<and>
          (\<exists>res. client_Do net (Resolve_req r rr) = Inr res \<and>
             (Debug r \<longrightarrow> \<not> isl (DumpRequestOut net (Resolve_req r rr)) \<and>
                          \<not> isl (DumpResponse net res)) \<and>
             StatusCode res = 200 \<and> Body res = Inr b \<and> ValidateBytes net b = None)"
    by (rule Resolve_succeeds_iff)
qed

theorem Resolve_result_witness:
  "URL ex_api = Join [''http://api/users/'', ''/orders?u='', ''''] ''$id''
   \<and> list_all (\<lambda>p. \<not> sublist ''$id'' p) [''http://api/users/'', ''/orders?u='', '''']
   \<and> Req_URL (Resolve_req ex_api ex_rr) = ''http://api/users/7/orders?u=7''
   \<and> NewRequestWithContext ex_net ''GET'' ''http://api/users/7/orders?u=7'' = None
   \<and> Resolve ex_net ex_api ex_rr
       = ([ClientDo \<lparr>Method = ''GET'', Req_URL = ''http://api/users/7/orders?u=7'',
                     Header_Set = [(''X-Token'', ''t'')]\<rparr>, BodyClose], Inr ''[7]'')
   \<and> Debug ex_api_debug
   \<and> DumpResponse ex_net_nodump \<lparr>StatusCode = 200, Body = Inr ''[7]''\<rparr>
       = Inl (Errorf ''unexpected EOF'')
   \<and> Resolve ex_net_nodump ex_api_debug ex_rr
       = ([ClientDo \<lparr>Method = ''GET'', Req_URL = ''http://api/users/7/orders?u=7'',
                     Header_Set = [(''X-Token'', ''t'')]\<rparr>, BodyClose],
          Inl (Errorf ''unexpected EOF''))"
proof -
  let ?res = "\<lparr>StatusCode = 200, Body = Inr ''[7]''\<rparr>"
  let ?req = "\<lparr>Method = ''GET'', Req_URL = ''http://api/users/7/orders?u=7'',
                Header_Set = [(''X-Token'', ''t'')]\<rparr>"
  note t = Resolve_result [where r = ex_api and rr = ex_rr and net = ex_net]
  note t' = Resolve_result [where r = ex_api_debug and rr = ex_rr and net = ex_net_nodump]
  have u: "URL ex_api = Join [''http://api/users/'', ''/orders?u='', ''''] ''$id''"
    by (simp add: ex_api_def)
  have p: "list_all (\<lambda>p. \<not> sublist ''$id'' p) [''http://api/users/'', ''/orders?u='', '''']"
    by (simp add: sublist_Cons_right)
  from t [THEN conjunct1, THEN spec, THEN mp, OF conjI, OF u p]
  have q: "Req_URL (Resolve_req ex_api ex_rr) = ''http://api/users/7/orders?u=7''"
    by (simp add: ex_rr_def)
  have rq: "Resolve_req ex_api ex_rr = ?req"
    using q by (simp add: Resolve_req_def ex_api_def)
  have rq': "Resolve_req ex_api_debug ex_rr = ?req"
    using rq by (simp add: Resolve_req_def Resolve_uri_def ex_api_debug_def)
  have n: "NewRequestWithContext ex_net ''GET'' ''http://api/users/7/orders?u=7'' = None"
    by (simp add: ex_net_def)
  have n0: "NewRequestWithContext ex_net ''GET'' (Req_URL (Resolve_req ex_api ex_rr)) = None"
    using n by (simp only: q)
  have d: "client_Do ex_net (Resolve_req ex_api ex_rr) = Inr ?res"
    by (simp add: ex_net_def)
  have g: "\<not> Debug ex_api \<or> (\<not> isl (DumpRequestOut ex_net (Resolve_req ex_api ex_rr)) \<and>
                            \<not> isl (DumpResponse ex_net ?res))"
    by (simp add: ex_api_def)
  note a = t [THEN conjunct2, THEN conjunct2, THEN conjunct2, THEN conjunct2, THEN conjunct2,
      THEN conjunct1, THEN mp, OF n0, THEN conjunct2, THEN spec, THEN mp, OF d,
      THEN conjunct2, THEN mp, OF g]
  have nd: "\<not> Debug ex_api" by (simp add: ex_api_def)
  have v: "ValidateBytes ex_net ''[7]'' = None" by (simp add: ex_net_def)
  have "fst (Resolve ex_net ex_api ex_rr) = [ClientDo ?req, BodyClose]
        \<and> snd (Resolve ex_net ex_api ex_rr) = Inr ''[7]''"
    using a by (simp add: nd v rq)
  then have ok: "Resolve ex_net ex_api ex_rr = ([ClientDo ?req, BodyClose], Inr ''[7]'')"
    by (simp add: prod_eq_iff)
  have n0': "NewRequestWithContext ex_net_nodump ''GET''
               (Req_URL (Resolve_req ex_api_debug ex_rr)) = None"
    using n by (simp add: rq' ex_net_nodump_def)
  have d': "client_Do ex_net_nodump (Resolve_req ex_api_debug ex_rr) = Inr ?res"
    by (simp add: ex_net_nodump_def ex_net_def)
  have dbg: "Debug ex_api_debug" by (simp add: ex_api_debug_def)
  have dr: "DumpResponse ex_net_nodump ?res = Inl (Errorf ''unexpected EOF'')"
    by (simp add: ex_net_nodump_def)
  have g': "Debug ex_api_debug \<and>
        (DumpRequestOut ex_net_nodump (Resolve_req ex_api_debug ex_rr)
           = Inl (Errorf ''unexpected EOF'') \<or>
         (\<not> isl (DumpRequestOut ex_net_nodump (Resolve_req ex_api_debug ex_rr)) \<and>
          DumpResponse ex_net_nodump ?res = Inl (Errorf ''unexpected EOF'')))"
    using dbg dr by (simp add: ex_net_nodump_def ex_net_def)
  note b = t' [THEN conjunct2, THEN conjunct2, THEN conjunct2, THEN conjunct2, THEN conjunct2,
      THEN conjunct1, THEN mp, OF n0', THEN conjunct2, THEN spec, THEN mp, OF d',
      THEN conjunct1, THEN spec, THEN mp, OF g']
  have bad: "Resolve ex_net_nodump ex_api_debug ex_rr
          = ([ClientDo ?req, BodyClose], Inl (Errorf ''unexpected EOF''))"
    using b by (simp only: rq')
  from u p q n ok dbg dr bad show ?thesis by (intro conjI)
qed

end
